theory Spec2Isabelle
  imports Complex_Main
begin

section \<open>Values shared by the components\<close>

text \<open>
  JavaScript numbers are modelled as real numbers (the rounding of IEEE doubles and the
  infinities are not represented; where a conversion can yield NaN, the number is
  optional and NaN is \<open>None\<close>), strings as \<open>string\<close>, and the \<open>Set<string>\<close> of
  selected country ids as a \<open>string set\<close>.

  \<open>JSON.parse\<close> returns an untyped value, so what \<open>handleAddCity\<close> stores in the
  city list is a JSON value, whatever the \<open>City\<close> interface declares.
\<close>

datatype json =
    JNull
  | JBool bool
  | JNum real
  | JStr string
  | JArr "json list"
  | JObj "(string \<times> json) list"

text \<open>
  Property lookup on a parsed value. In an object literal with a repeated key the last
  occurrence wins; every other kind of value has none of the properties read here.
\<close>

fun get_prop :: "json \<Rightarrow> string \<Rightarrow> json option" where
  "get_prop (JObj kvs) k = map_of (rev kvs) k"
| "get_prop _ k = None"

fun is_number :: "json option \<Rightarrow> bool" where
  "is_number (Some (JNum r)) = True"
| "is_number _ = False"

definition has_numeric_lat_lng :: "json \<Rightarrow> bool" where
  "has_numeric_lat_lng j = (is_number (get_prop j ''lat'') \<and> is_number (get_prop j ''lng''))"

section \<open>App: the session state and its handlers\<close>

text \<open>The nine \<open>useState\<close> cells of \<open>App\<close>.\<close>

record app =
  selectedCountryIds :: "string set"
  cities :: "json list"
  cityInput :: string
  isLocating :: bool
  countryColor :: string
  cityColor :: string
  textColor :: string
  fontFamily :: string
  fontSize :: real

definition initial_app :: app where
  "initial_app = \<lparr> selectedCountryIds = {}, cities = [], cityInput = [],
     isLocating = False, countryColor = ''#f97316'', cityColor = ''#ef4444'',
     textColor = ''#1e293b'', fontFamily = ''sans-serif'', fontSize = 12 \<rparr>"

subsection \<open>handleToggleCountry\<close>

definition toggle :: "string \<Rightarrow> string set \<Rightarrow> string set" where
  "toggle i prev = (if i \<in> prev then prev - {i} else insert i prev)"

definition handleToggleCountry :: "string \<Rightarrow> app \<Rightarrow> app" where
  "handleToggleCountry i s = s\<lparr> selectedCountryIds := toggle i (selectedCountryIds s) \<rparr>"

subsection \<open>handleAddCity\<close>

text \<open>
  \<open>String.prototype.trim\<close>. A \<open>string\<close> holds the characters up to U+00FF; of the white
  space and line terminators of ECMAScript those are TAB, LF, VT, FF, CR, SPACE and
  NO-BREAK SPACE (U+00A0).
\<close>

definition is_white_space :: "char \<Rightarrow> bool" where
  "is_white_space c =
     (c \<in> {CHR 0x09, CHR 0x0A, CHR 0x0B, CHR 0x0C, CHR 0x0D, CHR '' '', CHR 0xA0})"

definition trim :: "string \<Rightarrow> string" where
  "trim s = rev (dropWhile is_white_space (rev (dropWhile is_white_space s)))"

text \<open>
  What the \<open>try\<close> block of \<open>handleAddCity\<close> runs into once the request settles:
  the client constructor or \<open>generateContent\<close> throws, \<open>JSON.parse(response.text)\<close>
  throws, or \<open>JSON.parse\<close> returns a value.
\<close>

datatype failure = ServiceError | SyntaxError

datatype resolution = Failed failure | Parsed json

text \<open>
  What the user gets to see or the console receives. The one alert of the program reads
  "cannot parse; please try the format 'city' or 'city - note'".
\<close>

datatype notice = ConsoleError failure | AlertCannotParse

text \<open>
  The synchronous part before the \<open>await\<close>: the guard, then \<open>setIsLocating(true)\<close>.
  The result is \<open>None\<close> when the handler returns at the guard, otherwise the new state
  with the text sent to the service.
\<close>

definition handleAddCity_begin :: "app \<Rightarrow> (app \<times> string) option" where
  "handleAddCity_begin s =
     (if trim (cityInput s) = [] \<or> isLocating s then None
      else Some (s\<lparr> isLocating := True \<rparr>, cityInput s))"

text \<open>
  The part after the \<open>await\<close>, run on the state of that moment: the functional update
  of the city list and the clearing of the input on success, the \<open>catch\<close> block on
  failure, and \<open>finally\<close> in both cases.
\<close>

fun handleAddCity_settle :: "resolution \<Rightarrow> app \<Rightarrow> app \<times> notice list" where
  "handleAddCity_settle (Parsed result) s =
     (s\<lparr> cities := cities s @ [result], cityInput := [], isLocating := False \<rparr>, [])"
| "handleAddCity_settle (Failed err) s =
     (s\<lparr> isLocating := False \<rparr>, [ConsoleError err, AlertCannotParse])"

text \<open>A submission with nothing else happening while the request is in flight.\<close>

definition handleAddCity :: "resolution \<Rightarrow> app \<Rightarrow> app \<times> notice list" where
  "handleAddCity r s =
     (case handleAddCity_begin s of
        None \<Rightarrow> (s, [])
      | Some (s1, request) \<Rightarrow> handleAddCity_settle r s1)"

subsection \<open>removeCity\<close>

text \<open>\<open>Array.prototype.filter\<close> with a callback that also receives the index.\<close>

definition filter_indexed :: "('a \<Rightarrow> nat \<Rightarrow> bool) \<Rightarrow> 'a list \<Rightarrow> 'a list" where
  "filter_indexed p xs = map fst (filter (\<lambda>(x, i). p x i) (zip xs [0..<length xs]))"

definition removeCity :: "nat \<Rightarrow> app \<Rightarrow> app" where
  "removeCity index s = s\<lparr> cities := filter_indexed (\<lambda>_ i. i \<noteq> index) (cities s) \<rparr>"

subsection \<open>The style inputs and the clear-all button\<close>

datatype style_change =
    SetCountryColor string
  | SetCityColor string
  | SetTextColor string
  | SetFontFamily string
  | SetFontSize real

fun apply_style :: "style_change \<Rightarrow> app \<Rightarrow> app" where
  "apply_style (SetCountryColor v) s = s\<lparr> countryColor := v \<rparr>"
| "apply_style (SetCityColor v) s = s\<lparr> cityColor := v \<rparr>"
| "apply_style (SetTextColor v) s = s\<lparr> textColor := v \<rparr>"
| "apply_style (SetFontFamily v) s = s\<lparr> fontFamily := v \<rparr>"
| "apply_style (SetFontSize v) s = s\<lparr> fontSize := v \<rparr>"

definition clearAll :: "app \<Rightarrow> app" where
  "clearAll s = s\<lparr> selectedCountryIds := {}, cities := [] \<rparr>"

section \<open>MapView: geometry load, scene, zoom and export\<close>

subsection \<open>Props and data\<close>

text \<open>
  The \<open>City\<close> and \<open>config\<close> shapes of \<open>MapViewProps\<close>. Of a marker, \<open>MapView\<close>
  reads the four properties \<open>name\<close>, \<open>lat\<close>, \<open>lng\<close> and \<open>note\<close>; a \<open>city\<close> holds what
  these reads return, whatever it is, with \<open>None\<close> for \<open>undefined\<close>.
\<close>

record city =
  c_name :: "json option"
  c_lat :: "json option"
  c_lng :: "json option"
  c_note :: "json option"

record config =
  cfg_countryColor :: string
  cityPointColor :: string
  cfg_textColor :: string
  cfg_fontFamily :: string
  cfg_fontSize :: real

record props =
  p_selectedCountryIds :: "string set"
  p_cities :: "city list"
  p_config :: config

text \<open>
  A feature of the atlas (\<open>MapFeature\<close> in \<open>types.ts\<close>): its id, \<open>properties.name\<close>
  and its outline, which this program only hands on to the path generator. The
  conversion of the topology into features keeps id and properties, so the same record
  stands for the geometry objects \<open>CountrySelector\<close> reads.
\<close>

type_synonym geometry = "(real \<times> real) list list list"

record feature =
  f_id :: string
  f_name :: string
  f_geometry :: geometry

text \<open>The fields of a country record of the localization source that the code reads.\<close>

record country_meta =
  m_common :: string
  m_official :: string
  m_zho_common :: "string option"
  m_native_zho_common :: "string option"
  m_region :: "string option"

text \<open>\<open>a || b\<close> on a possibly missing string: the empty string is falsy as well.\<close>

definition js_or :: "string option \<Rightarrow> string \<Rightarrow> string" where
  "js_or a b = (case a of None \<Rightarrow> b | Some s \<Rightarrow> if s = [] then b else s)"

definition find_meta :: "country_meta list \<Rightarrow> string \<Rightarrow> country_meta option" where
  "find_meta metaData englishName =
     List.find (\<lambda>m. m_common m = englishName \<or> m_official m = englishName) metaData"

definition keeps_feature :: "feature \<Rightarrow> bool" where
  "keeps_feature f = (f_id f \<noteq> ''010'' \<and> f_name f \<noteq> ''Antarctica'')"

subsection \<open>The scene\<close>

text \<open>A zoom transform of d3 (\<open>event.transform\<close>): scale \<open>k\<close> and translation.\<close>

record transform =
  t_k :: real
  t_x :: real
  t_y :: real

definition zoomIdentity :: transform where
  "zoomIdentity = \<lparr> t_k = 1, t_x = 0, t_y = 0 \<rparr>"

record rect =
  r_width :: real
  r_height :: real
  r_x :: real
  r_y :: real
  r_fill :: string

text \<open>
  A country path: its datum, the viewport its outline was projected for, and its fill.
  Stroke, stroke width and cursor are the same constants on every path.
\<close>

record country_path =
  cp_datum :: feature
  cp_viewport :: "nat \<times> nat"
  cp_fill :: string

text \<open>
  A city label (the group with the circle and the text): its datum, and the viewport and
  the style it was drawn for. Its attributes are functions of these three, given with the
  render effect below.
\<close>

record city_label =
  cl_datum :: city
  cl_viewport :: "nat \<times> nat"
  cl_config :: config

text \<open>The group \<open>g\<close> all drawing goes into; \<open>g_transform\<close> is its \<open>transform\<close> attribute.\<close>

record group =
  g_transform :: "transform option"
  g_background :: rect
  g_countries :: "country_path list"
  g_cities :: "city_label list"

text \<open>
  The \<open>svg\<close> element: the \<open>width\<close> and \<open>height\<close> attributes, its content (nothing, or the
  one group), the size \<open>getBoundingClientRect\<close> reports for it, and \<open>svg_zoom\<close>, the
  transform the d3 zoom behaviour keeps on the element it is applied to.
\<close>

record svg_elem =
  svg_width :: "nat option"
  svg_height :: "nat option"
  svg_children :: "group option"
  svg_zoom :: "transform option"
  rect_width :: real
  rect_height :: real

record container =
  clientWidth :: nat
  clientHeight :: nat

record map_view =
  worldData :: "feature list option"
  nameMap :: "(string \<times> string) list"
  svgRef :: "svg_elem option"
  containerRef :: "container option"

subsection \<open>The data-load effect\<close>

text \<open>
  \<open>mapping[f.id] = ...\<close> for each kept feature in turn; a later assignment to the same
  key is found first by \<open>map_of\<close>.
\<close>

definition localized :: "country_meta list \<Rightarrow> string \<Rightarrow> string" where
  "localized metaData englishName =
     js_or (Option.bind (find_meta metaData englishName) m_zho_common) englishName"

definition build_mapping :: "country_meta list \<Rightarrow> feature list \<Rightarrow> (string \<times> string) list" where
  "build_mapping metaData fs =
     fold (\<lambda>f mapping. (f_id f, localized metaData (f_name f)) # mapping) fs []"

text \<open>
  The \<open>then\<close> callback runs only when both fetches succeeded (\<open>Some\<close>); otherwise the
  state stays as it is.
\<close>

definition MapView_load :: "(feature list \<times> country_meta list) option \<Rightarrow> map_view \<Rightarrow> map_view" where
  "MapView_load fetched v =
     (case fetched of
        None \<Rightarrow> v
      | Some (atlasData, metaData) \<Rightarrow>
          (let countries = filter keeps_feature atlasData
           in v\<lparr> nameMap := build_mapping metaData countries, worldData := Some countries \<rparr>))"

subsection \<open>The projection\<close>

text \<open>
  \<open>d3.geoEquirectangular().scale(width / (2 * Math.PI)).translate([width / 2,
  height / 2 + height * 0.1])\<close> applied to \<open>[lng, lat]\<close>. As d3-geo documents and
  implements it: degrees are converted to radians, the default rotation only brings a
  longitude beyond \<open>\<plusminus>\<pi>\<close> back by whole turns, the raw equirectangular projection is the
  identity, and the result is scaled, flipped in y and translated.
\<close>

definition radians :: real where
  "radians = pi / 180"

definition rotationIdentity :: "real \<Rightarrow> real" where
  "rotationIdentity lambda =
     (if \<bar>lambda\<bar> > pi then lambda - of_int \<lfloor>lambda / (2 * pi) + 1 / 2\<rfloor> * (2 * pi) else lambda)"

definition projection :: "nat \<Rightarrow> nat \<Rightarrow> real \<times> real \<Rightarrow> real \<times> real" where
  "projection width height point =
     (let k = real width / (2 * pi);
          tx = real width / 2;
          ty = real height / 2 + real height * 0.1;
          lambda = rotationIdentity (fst point * radians);
          phi = snd point * radians
      in (tx + k * lambda, ty - k * phi))"

text \<open>
  A marker's coordinates are whatever was parsed, and the projection multiplies them by
  a number, which converts them first. A number that is not a number (NaN) is \<open>None\<close>.
  \<open>undefined\<close> converts to NaN, \<open>null\<close> to 0, a boolean to 0 or 1; a string, an array or
  an object converts through its text, by rules of the language that are taken as the
  parameter \<open>text_number\<close>.
\<close>

definition to_number :: "(json \<Rightarrow> real option) \<Rightarrow> json option \<Rightarrow> real option" where
  "to_number text_number x =
     (case x of
        None \<Rightarrow> None
      | Some JNull \<Rightarrow> Some 0
      | Some (JBool b) \<Rightarrow> Some (if b then 1 else 0)
      | Some (JNum r) \<Rightarrow> Some r
      | Some j \<Rightarrow> text_number j)"

text \<open>
  The projection of a point whose coordinates may be NaN: x comes from the longitude
  alone and y from the latitude alone, so each is NaN exactly when its own input is.
\<close>

definition project_coord ::
  "nat \<Rightarrow> nat \<Rightarrow> real option \<times> real option \<Rightarrow> real option \<times> real option" where
  "project_coord width height point =
     (map_option (\<lambda>lng. fst (projection width height (lng, 0))) (fst point),
      map_option (\<lambda>lat. snd (projection width height (0, lat))) (snd point))"

text \<open>\<open>x || 0\<close> on a number: NaN and 0 give 0.\<close>

definition or_zero :: "real option \<Rightarrow> real" where
  "or_zero x = (case x of None \<Rightarrow> 0 | Some r \<Rightarrow> if r = 0 then 0 else r)"

text \<open>The truth value of a property in a condition.\<close>

definition truthy :: "json option \<Rightarrow> bool" where
  "truthy x =
     (case x of
        None \<Rightarrow> False
      | Some JNull \<Rightarrow> False
      | Some (JBool b) \<Rightarrow> b
      | Some (JNum r) \<Rightarrow> r \<noteq> 0
      | Some (JStr s) \<Rightarrow> s \<noteq> []
      | Some j \<Rightarrow> True)"

subsection \<open>The render effect\<close>

definition render_country :: "nat \<Rightarrow> nat \<Rightarrow> props \<Rightarrow> feature \<Rightarrow> country_path" where
  "render_country width height p d =
     \<lparr> cp_datum = d, cp_viewport = (width, height),
       cp_fill = (if f_id d \<in> p_selectedCountryIds p
                  then cfg_countryColor (p_config p) else ''#e2e8f0'') \<rparr>"

definition render_city :: "nat \<Rightarrow> nat \<Rightarrow> config \<Rightarrow> city \<Rightarrow> city_label" where
  "render_city width height cfg d =
     \<lparr> cl_datum = d, cl_viewport = (width, height), cl_config = cfg \<rparr>"

text \<open>
  The attributes of a label. \<open>label_x\<close> and \<open>label_y\<close> are
  \<open>projection([d.lng, d.lat])?.[0] || 0\<close> and the same with \<open>[1]\<close>: the centre of the
  circle, which has radius 3.5 and the fill \<open>cityPointColor\<close>.
\<close>

definition label_x :: "(json \<Rightarrow> real option) \<Rightarrow> city_label \<Rightarrow> real" where
  "label_x text_number l =
     or_zero (fst (project_coord (fst (cl_viewport l)) (snd (cl_viewport l))
       (to_number text_number (c_lng (cl_datum l)), to_number text_number (c_lat (cl_datum l)))))"

definition label_y :: "(json \<Rightarrow> real option) \<Rightarrow> city_label \<Rightarrow> real" where
  "label_y text_number l =
     or_zero (snd (project_coord (fst (cl_viewport l)) (snd (cl_viewport l))
       (to_number text_number (c_lng (cl_datum l)), to_number text_number (c_lat (cl_datum l)))))"

definition circle_fill :: "city_label \<Rightarrow> string" where
  "circle_fill l = cityPointColor (cl_config l)"

text \<open>
  The text element: its position, fill, font family and font size, and the value handed
  to the first \<open>tspan\<close> as its text.
\<close>

record label_text =
  lt_x :: real
  lt_y :: real
  lt_fill :: string
  lt_font_family :: string
  lt_font_size :: real
  lt_name :: "json option"

definition text_of_label :: "(json \<Rightarrow> real option) \<Rightarrow> city_label \<Rightarrow> label_text" where
  "text_of_label text_number l =
     \<lparr> lt_x = label_x text_number l + 7, lt_y = label_y text_number l + 4,
       lt_fill = cfg_textColor (cl_config l), lt_font_family = cfg_fontFamily (cl_config l),
       lt_font_size = cfg_fontSize (cl_config l), lt_name = c_name (cl_datum l) \<rparr>"

text \<open>
  The second \<open>tspan\<close>, present when \<open>d.note\<close> is truthy: its position, its font size and
  the value that is put between the parentheses of its text.
\<close>

record note_span =
  ns_x :: real
  ns_dy :: real
  ns_font_size :: real
  ns_note :: "json option"

definition note_of_label :: "(json \<Rightarrow> real option) \<Rightarrow> city_label \<Rightarrow> note_span option" where
  "note_of_label text_number l =
     (if truthy (c_note (cl_datum l))
      then Some \<lparr> ns_x = label_x text_number l + 7, ns_dy = cfg_fontSize (cl_config l),
                  ns_font_size = cfg_fontSize (cl_config l) * 0.8,
                  ns_note = c_note (cl_datum l) \<rparr>
      else None)"

text \<open>
  The freshly appended group: no \<open>transform\<close> attribute is set on it by the effect; only
  the zoom listener sets one.
\<close>

definition render_group :: "nat \<Rightarrow> nat \<Rightarrow> feature list \<Rightarrow> props \<Rightarrow> group" where
  "render_group width height fs p =
     \<lparr> g_transform = None,
       g_background = \<lparr> r_width = real width * 5, r_height = real height * 5,
                        r_x = - real width * 2, r_y = - real height * 2,
                        r_fill = ''#ffffff'' \<rparr>,
       g_countries = map (render_country width height p) fs,
       g_cities = map (render_city width height (p_config p)) (p_cities p) \<rparr>"

text \<open>
  \<open>svg.call(zoom)\<close>: d3-zoom initialises the transform kept on the element to the
  identity if none is defined yet, and leaves a defined one alone.
\<close>

definition call_zoom :: "transform option \<Rightarrow> transform option" where
  "call_zoom z = (case z of None \<Rightarrow> Some zoomIdentity | Some t \<Rightarrow> Some t)"

text \<open>
  One run of the effect: it returns at once unless the data is loaded and both elements
  are mounted; otherwise it sets the size attributes, removes everything below the
  \<open>svg\<close> element and builds the scene anew.
\<close>

definition MapView_render :: "props \<Rightarrow> map_view \<Rightarrow> map_view" where
  "MapView_render p v =
     (case worldData v of
        None \<Rightarrow> v
      | Some fs \<Rightarrow>
          (case svgRef v of
             None \<Rightarrow> v
           | Some svg \<Rightarrow>
               (case containerRef v of
                  None \<Rightarrow> v
                | Some c \<Rightarrow>
                    v\<lparr> svgRef := Some (svg
                         \<lparr> svg_width := Some (clientWidth c),
                           svg_height := Some (clientHeight c),
                           svg_children :=
                             Some (render_group (clientWidth c) (clientHeight c) fs p),
                           svg_zoom := call_zoom (svg_zoom svg) \<rparr>) \<rparr>)))"

text \<open>
  The zoom listener, bound by the effect and so present exactly when the group is: it
  writes \<open>event.transform\<close> to the group, and d3 keeps the same transform on the
  \<open>svg\<close> element.
\<close>

definition on_zoom :: "transform \<Rightarrow> map_view \<Rightarrow> map_view" where
  "on_zoom t v =
     (case svgRef v of
        None \<Rightarrow> v
      | Some svg \<Rightarrow>
          (case svg_children svg of
             None \<Rightarrow> v
           | Some g \<Rightarrow>
               v\<lparr> svgRef := Some (svg\<lparr> svg_children := Some (g\<lparr> g_transform := Some t \<rparr>),
                                         svg_zoom := Some t \<rparr>) \<rparr>))"

text \<open>The resize listener, also bound by the effect: only the size attributes change.\<close>

definition handleResize :: "map_view \<Rightarrow> map_view" where
  "handleResize v =
     (case svgRef v of
        None \<Rightarrow> v
      | Some svg \<Rightarrow>
          (case svg_children svg of
             None \<Rightarrow> v
           | Some g \<Rightarrow>
               (case containerRef v of
                  None \<Rightarrow> v
                | Some c \<Rightarrow>
                    v\<lparr> svgRef := Some (svg\<lparr> svg_width := Some (clientWidth c),
                                              svg_height := Some (clientHeight c) \<rparr>) \<rparr>)))"

subsection \<open>exportToPng\<close>

text \<open>
  What the browser contributes to an export: whether the canvas yields a 2d context,
  whether the image made from the serialized \<open>svg\<close> element loads (only then does the
  \<open>onload\<close> callback run), and the clock for the file name.
\<close>

record export_env =
  has_context :: bool
  image_loads :: bool
  now :: nat

datatype canvas_op =
    FillRect string real real real real
  | DrawImage svg_elem real real real real

text \<open>
  \<open>canvas.width\<close> and \<open>canvas.height\<close> are attributes of type \<open>unsigned long\<close>. A number
  assigned to one is converted first: its fraction is dropped and the result taken modulo
  \<open>2^32\<close>; and the attribute takes the value only up to 2147483647, and its default
  (300 for the width, 150 for the height) otherwise.
\<close>

definition to_unsigned_long :: "real \<Rightarrow> nat" where
  "to_unsigned_long x = nat ((if x < 0 then - \<lfloor>- x\<rfloor> else \<lfloor>x\<rfloor>) mod 4294967296)"

definition set_size_attribute :: "nat \<Rightarrow> real \<Rightarrow> nat" where
  "set_size_attribute fallback x =
     (if to_unsigned_long x \<le> 2147483647 then to_unsigned_long x else fallback)"

text \<open>
  A triggered download: the canvas size, what was drawn on the canvas in order, and the
  time stamp in the name \<open>world-travel-map-<time>.png\<close>.
\<close>

record download =
  canvas_width :: nat
  canvas_height :: nat
  canvas_ops :: "canvas_op list"
  file_time :: nat

definition exportToPng :: "map_view \<Rightarrow> export_env \<Rightarrow> download option" where
  "exportToPng v env =
     (case svgRef v of
        None \<Rightarrow> None
      | Some svg \<Rightarrow>
          (let scale = 2;
               width = set_size_attribute 300 (rect_width svg * scale);
               height = set_size_attribute 150 (rect_height svg * scale)
           in if image_loads env \<and> has_context env
              then Some \<lparr> canvas_width = width, canvas_height = height,
                          canvas_ops = [FillRect ''white'' 0 0 (real width) (real height),
                                        DrawImage svg 0 0 (real width) (real height)],
                          file_time = now env \<rparr>
              else None))"

subsection \<open>The life of a view\<close>

text \<open>
  A freshly mounted view: both elements exist, nothing is drawn, no data has arrived.
  \<open>c\<close> is the container's client size and \<open>w\<close>, \<open>h\<close> the size of the \<open>svg\<close> element's
  bounding rectangle.
\<close>

definition fresh_view :: "container \<Rightarrow> real \<Rightarrow> real \<Rightarrow> map_view" where
  "fresh_view c w h =
     \<lparr> worldData = None, nameMap = [],
       svgRef = Some \<lparr> svg_width = None, svg_height = None, svg_children = None,
                       svg_zoom = None, rect_width = w, rect_height = h \<rparr>,
       containerRef = Some c \<rparr>"

text \<open>
  What can happen to a view: the fetches settle, the render effect runs for some props,
  a zoom gesture delivers a transform, or the layout changes and the resize listener
  runs.
\<close>

datatype event =
    Loaded "(feature list \<times> country_meta list) option"
  | Rendered props
  | Zoomed transform
  | Resized container real real

definition relayout :: "container \<Rightarrow> real \<Rightarrow> real \<Rightarrow> map_view \<Rightarrow> map_view" where
  "relayout c w h v =
     v\<lparr> svgRef := map_option (\<lambda>svg. svg\<lparr> rect_width := w, rect_height := h \<rparr>) (svgRef v),
        containerRef := map_option (\<lambda>_. c) (containerRef v) \<rparr>"

fun step :: "event \<Rightarrow> map_view \<Rightarrow> map_view" where
  "step (Loaded fetched) v = MapView_load fetched v"
| "step (Rendered p) v = MapView_render p v"
| "step (Zoomed t) v = on_zoom t v"
| "step (Resized c w h) v = handleResize (relayout c w h v)"

definition run :: "event list \<Rightarrow> map_view \<Rightarrow> map_view" where
  "run evs v = fold step evs v"

text \<open>Reading a view: the group, its transform attribute, the transform d3 keeps.\<close>

definition scene :: "map_view \<Rightarrow> group option" where
  "scene v = Option.bind (svgRef v) svg_children"

definition view_transform :: "map_view \<Rightarrow> transform option" where
  "view_transform v = Option.bind (scene v) g_transform"

definition kept_zoom :: "map_view \<Rightarrow> transform option" where
  "kept_zoom v = Option.bind (svgRef v) svg_zoom"

text \<open>
  The features of the loaded index, and the features that have a path in the scene; the
  paths are what carries the hover and click listeners.
\<close>

definition loaded_features :: "map_view \<Rightarrow> feature list" where
  "loaded_features v = (case worldData v of None \<Rightarrow> [] | Some fs \<Rightarrow> fs)"

definition drawn_features :: "map_view \<Rightarrow> feature list" where
  "drawn_features v = (case scene v of None \<Rightarrow> [] | Some g \<Rightarrow> map cp_datum (g_countries g))"

text \<open>The invariant of a view: what is loaded and what is drawn passed the filter.\<close>

definition kept_only :: "map_view \<Rightarrow> bool" where
  "kept_only v = (list_all keeps_feature (loaded_features v)
     \<and> list_all keeps_feature (drawn_features v))"

section \<open>CountrySelector: the country list\<close>

record country_entry =
  ce_id :: string
  ce_name :: string
  ce_continent :: string

definition to_entry :: "country_meta list \<Rightarrow> feature \<Rightarrow> country_entry" where
  "to_entry metaData g =
     (let englishName = f_name g;
          meta = find_meta metaData englishName
      in \<lparr> ce_id = f_id g,
           ce_name = js_or (Option.bind meta m_zho_common)
                       (js_or (Option.bind meta m_native_zho_common) englishName),
           ce_continent = js_or (Option.bind meta m_region) ''Other'' \<rparr>)"

text \<open>
  \<open>Array.prototype.sort\<close> with a comparator, here \<open>localeCompare\<close> for the locale
  \<open>zh-Hans-CN\<close>, which is taken as the parameter \<open>le\<close>: a stable insertion sort.
\<close>

fun insert_by :: "('a \<Rightarrow> 'a \<Rightarrow> bool) \<Rightarrow> 'a \<Rightarrow> 'a list \<Rightarrow> 'a list" where
  "insert_by le x [] = [x]"
| "insert_by le x (y # ys) = (if le x y then x # y # ys else y # insert_by le x ys)"

definition sort_by :: "('a \<Rightarrow> 'a \<Rightarrow> bool) \<Rightarrow> 'a list \<Rightarrow> 'a list" where
  "sort_by le xs = foldr (insert_by le) xs []"

text \<open>
  The \<open>then\<close> callback of the selector's load effect: nothing happens when a fetch
  failed (the error is only logged) or the component is no longer mounted.
\<close>

definition CountrySelector_load ::
  "(string \<Rightarrow> string \<Rightarrow> bool) \<Rightarrow> (feature list \<times> country_meta list) option \<Rightarrow> bool
     \<Rightarrow> country_entry list \<Rightarrow> country_entry list" where
  "CountrySelector_load le fetched isMounted countries =
     (case fetched of
        None \<Rightarrow> countries
      | Some (geometries, metaData) \<Rightarrow>
          if \<not> isMounted then countries
          else sort_by (\<lambda>a b. le (ce_name a) (ce_name b))
                 (map (to_entry metaData) (filter keeps_feature geometries)))"

section \<open>The session: App with its MapView\<close>

text \<open>
  \<open>App\<close> lists the markers itself: of each it reads \<open>city.name\<close> and \<open>city.note\<close>,
  puts the name into the list as a child and, when the note is truthy, the note as well.
  For a stored \<open>null\<close> the read throws; and React accepts as a child a string, a number,
  a boolean, \<open>null\<close>, \<open>undefined\<close> and an array of such, but throws on an object. When
  the render of \<open>App\<close> throws, the whole tree is unmounted.
\<close>

fun renderable :: "json \<Rightarrow> bool" where
  "renderable (JObj kvs) = False"
| "renderable (JArr xs) = list_all renderable xs"
| "renderable j = True"

definition renderable_child :: "json option \<Rightarrow> bool" where
  "renderable_child x = (case x of None \<Rightarrow> True | Some j \<Rightarrow> renderable j)"

definition renders_marker :: "json \<Rightarrow> bool" where
  "renders_marker c =
     (c \<noteq> JNull \<and> renderable_child (get_prop c ''name'')
      \<and> (if truthy (get_prop c ''note'') then renderable_child (get_prop c ''note'') else True))"

definition App_renders :: "app \<Rightarrow> bool" where
  "App_renders a = list_all renders_marker (cities a)"

definition read_city :: "json \<Rightarrow> city" where
  "read_city j = \<lparr> c_name = get_prop j ''name'', c_lat = get_prop j ''lat'',
     c_lng = get_prop j ''lng'', c_note = get_prop j ''note'' \<rparr>"

text \<open>
  The props \<open>App\<close> hands to \<open>MapView\<close> when its render goes through; the markers are
  passed on as they are stored.
\<close>

definition MapView_props :: "app \<Rightarrow> props option" where
  "MapView_props a =
     (if App_renders a
      then Some \<lparr> p_selectedCountryIds = selectedCountryIds a,
                  p_cities = map read_city (cities a),
                  p_config = \<lparr> cfg_countryColor = countryColor a, cityPointColor = cityColor a,
                               cfg_textColor = textColor a, cfg_fontFamily = fontFamily a,
                               cfg_fontSize = fontSize a \<rparr> \<rparr>
      else None)"

text \<open>
  A style input changes: \<open>App\<close> renders again with a new \<open>config\<close> object, and the
  render effect of \<open>MapView\<close>, which depends on \<open>config\<close>, runs. The result is \<open>None\<close>
  when the render of \<open>App\<close> fails.
\<close>

definition restyle :: "style_change \<Rightarrow> app \<times> map_view \<Rightarrow> (app \<times> map_view) option" where
  "restyle ch st =
     (let a = apply_style ch (fst st)
      in map_option (\<lambda>p. (a, MapView_render p (snd st))) (MapView_props a))"

section \<open>Concrete states\<close>

text \<open>
  The view right after mounting, while both fetches are still under way: the \<open>svg\<close>
  element and the container exist (they are rendered unconditionally), laid out at
  800 by 450 pixels, with nothing drawn and no data.
\<close>

definition mounted_svg :: svg_elem where
  "mounted_svg = \<lparr> svg_width = None, svg_height = None, svg_children = None,
     svg_zoom = None, rect_width = 800, rect_height = 450 \<rparr>"

definition loading_view :: map_view where
  "loading_view = \<lparr> worldData = None, nameMap = [], svgRef = Some mounted_svg,
     containerRef = Some \<lparr> clientWidth = 800, clientHeight = 450 \<rparr> \<rparr>"

definition working_browser :: export_env where
  "working_browser = \<lparr> has_context = True, image_loads = True, now = 1700000000000 \<rparr>"

text \<open>A response that parses but carries no coordinates.\<close>

definition name_only :: json where
  "name_only = JObj [(''name'', JStr ''Atlantis'')]"

text \<open>A small atlas with Antarctica in it, and the props of the initial \<open>App\<close> state.\<close>

definition antarctica :: feature where
  "antarctica = \<lparr> f_id = ''010'', f_name = ''Antarctica'', f_geometry = [] \<rparr>"

definition china :: feature where
  "china = \<lparr> f_id = ''156'', f_name = ''China'', f_geometry = [] \<rparr>"

definition initial_props :: props where
  "initial_props = \<lparr> p_selectedCountryIds = {}, p_cities = [],
     p_config = \<lparr> cfg_countryColor = ''#f97316'', cityPointColor = ''#ef4444'',
                  cfg_textColor = ''#1e293b'', cfg_fontFamily = ''sans-serif'',
                  cfg_fontSize = 12 \<rparr> \<rparr>"

definition green_props :: props where
  "green_props = \<lparr> p_selectedCountryIds = {}, p_cities = [],
     p_config = \<lparr> cfg_countryColor = ''#22c55e'', cityPointColor = ''#ef4444'',
                  cfg_textColor = ''#1e293b'', cfg_fontFamily = ''sans-serif'',
                  cfg_fontSize = 12 \<rparr> \<rparr>"

text \<open>The data has arrived, the scene has been drawn, and the user has zoomed in.\<close>

definition zoomed_in :: transform where
  "zoomed_in = \<lparr> t_k = 2, t_x = - 400, t_y = - 225 \<rparr>"

definition zoomed_view :: map_view where
  "zoomed_view =
     run [Loaded (Some ([antarctica, china], [])), Rendered initial_props, Zoomed zoomed_in]
       loading_view"

text \<open>
  A session in which country 156 has been selected and Shanghai has been added with a
  note, and the view it has then; the same view after the layout has given the \<open>svg\<close>
  element a size that is not a whole number of pixels.
\<close>

definition shanghai :: json where
  "shanghai = JObj [(''name'', JStr ''Shanghai''), (''lat'', JNum 31.23), (''lng'', JNum 121.47),
     (''note'', JStr ''trip'')]"

definition selected_app :: app where
  "selected_app = initial_app\<lparr> selectedCountryIds := {''156''}, cities := [shanghai] \<rparr>"

definition selected_props :: props where
  "selected_props = \<lparr> p_selectedCountryIds = {''156''}, p_cities = [read_city shanghai],
     p_config = \<lparr> cfg_countryColor = ''#f97316'', cityPointColor = ''#ef4444'',
                  cfg_textColor = ''#1e293b'', cfg_fontFamily = ''sans-serif'',
                  cfg_fontSize = 12 \<rparr> \<rparr>"

definition selected_svg :: svg_elem where
  "selected_svg = \<lparr> svg_width = Some 800, svg_height = Some 450,
     svg_children = Some (render_group 800 450 [china] selected_props),
     svg_zoom = Some zoomIdentity, rect_width = 800, rect_height = 450 \<rparr>"

definition selected_view :: map_view where
  "selected_view =
     run [Loaded (Some ([antarctica, china], [])), Rendered initial_props,
          Rendered selected_props] loading_view"

definition fractional_view :: map_view where
  "fractional_view =
     run [Resized \<lparr> clientWidth = 800, clientHeight = 450 \<rparr> 800.4 450.3] selected_view"

section \<open>Properties of the session handlers\<close>

lemma filter_indexed_snoc_last:
  "filter_indexed (\<lambda>_ i. i \<noteq> length xs) (xs @ [x]) = xs"
proof -
  have z: "zip (xs @ [x]) [0..<length (xs @ [x])] = zip xs [0..<length xs] @ [(x, length xs)]"
    by simp
  have keep: "filter (\<lambda>(y, i). i \<noteq> length xs) (zip xs [0..<length xs]) = zip xs [0..<length xs]"
    by (rule filter_True) (auto dest: set_zip_rightD)
  show ?thesis
    unfolding filter_indexed_def z by (simp add: keep)
qed

lemma toggle_toggle: "toggle i (toggle i selected) = selected"
  by (auto simp: toggle_def)

text \<open>
  C5. Toggling the same country id twice in succession gives back the selection set one
  started from, for every selection set and every id.
\<close>

theorem toggle_twice_restores:
  "toggle i (toggle i selected) = selected
   \<and> handleToggleCountry i (handleToggleCountry i s) = s"
  by (simp add: handleToggleCountry_def toggle_toggle)

text \<open>
  C6. Appending a marker (the success path of \<open>handleAddCity\<close>) and then removing it by
  its index, the length of the sequence before the append, restores the earlier sequence
  with its order.
\<close>

theorem add_then_remove_restores:
  "cities (removeCity (length (cities s)) (fst (handleAddCity_settle (Parsed m) s))) = cities s"
  by (simp add: removeCity_def filter_indexed_snoc_last)

text \<open>
  C10. The clear-all button empties the selection set and the city sequence in one
  handler and leaves the five style values, the pending input text and the busy flag as
  they were.
\<close>

theorem clearAll_frame:
  "clearAll s = s\<lparr> selectedCountryIds := {}, cities := [] \<rparr>
   \<and> selectedCountryIds (clearAll s) = {}
   \<and> cities (clearAll s) = []
   \<and> countryColor (clearAll s) = countryColor s
   \<and> cityColor (clearAll s) = cityColor s
   \<and> textColor (clearAll s) = textColor s
   \<and> fontFamily (clearAll s) = fontFamily s
   \<and> fontSize (clearAll s) = fontSize s
   \<and> cityInput (clearAll s) = cityInput s
   \<and> isLocating (clearAll s) = isLocating s"
  by (simp add: clearAll_def)

text \<open>
  C4. When the resolution fails, by an error of the service or by a response text that
  does not parse, the handler shows its alert, and the city sequence and the content of
  the text input are exactly what they were; this holds for the state at the moment the
  request settles and so for a submission as a whole.
\<close>

theorem resolution_failure_keeps_state:
  "fst (handleAddCity_settle (Failed err) s) = s\<lparr> isLocating := False \<rparr>
   \<and> cities (fst (handleAddCity_settle (Failed err) s)) = cities s
   \<and> length (cities (fst (handleAddCity_settle (Failed err) s))) = length (cities s)
   \<and> cityInput (fst (handleAddCity_settle (Failed err) s)) = cityInput s
   \<and> snd (handleAddCity_settle (Failed err) s) = [ConsoleError err, AlertCannotParse]
   \<and> cities (fst (handleAddCity (Failed err) s)) = cities s
   \<and> cityInput (fst (handleAddCity (Failed err) s)) = cityInput s"
  by (simp add: handleAddCity_def handleAddCity_begin_def)

text \<open>
  C3, as the code has it. \<open>handleAddCity\<close> does not inspect the parsed result: whatever
  value \<open>JSON.parse\<close> returns becomes the last element of the city sequence, unchanged.
\<close>

theorem parsed_result_appended_as_is:
  "cities (fst (handleAddCity_settle (Parsed result) s)) = cities s @ [result]"
  by simp

text \<open>
  C3 fails as stated: submitting a non-blank input and receiving a response that parses
  to an object without \<open>lat\<close> and \<open>lng\<close> appends that object to the city sequence.
\<close>

theorem marker_without_coordinates_appended:
  "cities (fst (handleAddCity (Parsed name_only) (initial_app\<lparr> cityInput := ''Atlantis'' \<rparr>)))
     = [name_only]
   \<and> \<not> has_numeric_lat_lng name_only"
  by (simp add: handleAddCity_def handleAddCity_begin_def trim_def is_white_space_def
      initial_app_def name_only_def has_numeric_lat_lng_def)

subsection \<open>The size of the canvas\<close>

lemma to_unsigned_long_floor:
  "0 \<le> x \<Longrightarrow> x < 2147483648 \<Longrightarrow> set_size_attribute d x = nat \<lfloor>x\<rfloor>"
proof -
  assume x: "0 \<le> x" "x < 2147483648"
  have lo: "0 \<le> \<lfloor>x\<rfloor>" using x by simp
  have hi: "\<lfloor>x\<rfloor> < 2147483648" using x by (simp add: floor_less_iff)
  have m: "\<lfloor>x\<rfloor> mod 4294967296 = \<lfloor>x\<rfloor>"
    using lo hi by (intro mod_pos_pos_trivial) simp_all
  have u: "to_unsigned_long x = nat \<lfloor>x\<rfloor>"
    using x by (simp add: to_unsigned_long_def m)
  have "nat \<lfloor>x\<rfloor> \<le> 2147483647" using lo hi by linarith
  then show ?thesis by (simp add: set_size_attribute_def u)
qed

lemma whole_number_kept: "0 \<le> x \<Longrightarrow> x \<in> \<int> \<Longrightarrow> real (nat \<lfloor>x\<rfloor>) = x"
  by (auto elim!: Ints_cases)

lemma size_1600: "set_size_attribute 300 1600 = 1600"
  using to_unsigned_long_floor [of 1600 300] by simp

lemma size_900: "set_size_attribute 150 900 = 900"
  using to_unsigned_long_floor [of 900 150] by simp

lemma size_fractional_width: "set_size_attribute 300 (8004 / 5) = 1600"
  using to_unsigned_long_floor [of "8004 / 5" 300] by simp

lemma size_fractional_height: "set_size_attribute 150 (4503 / 5) = 900"
  using to_unsigned_long_floor [of "4503 / 5" 150] by simp

subsection \<open>The export\<close>

text \<open>
  C1, as the code has it. The guard of \<open>exportToPng\<close> is on the \<open>svg\<close> element: when
  it is not mounted, the export produces no image and triggers no download.
\<close>

theorem export_without_svg_is_noop:
  "svgRef v = None \<Longrightarrow> exportToPng v env = None"
  by (simp add: exportToPng_def)

theorem export_without_svg_is_noop_witness:
  "svgRef (loading_view\<lparr> svgRef := None \<rparr>) = None
   \<and> exportToPng (loading_view\<lparr> svgRef := None \<rparr>) working_browser = None"
  using export_without_svg_is_noop [of "loading_view\<lparr> svgRef := None \<rparr>" working_browser]
  by simp

text \<open>
  C1 fails as stated: with no geometry loaded yet, but the \<open>svg\<close> element mounted, the
  export goes through and downloads the picture of an empty scene on white.
\<close>

theorem export_before_geometry_downloads:
  "worldData loading_view = None
   \<and> exportToPng loading_view working_browser =
       Some \<lparr> canvas_width = 1600, canvas_height = 900,
              canvas_ops = [FillRect ''white'' 0 0 1600 900, DrawImage mounted_svg 0 0 1600 900],
              file_time = 1700000000000 \<rparr>
   \<and> svg_children mounted_svg = None"
  by (simp add: exportToPng_def loading_view_def working_browser_def mounted_svg_def
      size_1600 size_900)

lemma selected_view_svg: "svgRef selected_view = Some selected_svg"
  by (simp add: selected_view_def selected_svg_def run_def loading_view_def mounted_svg_def
      MapView_load_def MapView_render_def keeps_feature_def antarctica_def china_def Let_def
      call_zoom_def)

lemma selected_content:
  "map cp_fill (g_countries (render_group 800 450 [china] selected_props)) = [''#f97316'']
   \<and> map cl_datum (g_cities (render_group 800 450 [china] selected_props))
       = [\<lparr> c_name = Some (JStr ''Shanghai''), c_lat = Some (JNum 31.23),
             c_lng = Some (JNum 121.47), c_note = Some (JStr ''trip'') \<rparr>]"
  by (simp add: render_group_def render_country_def render_city_def selected_props_def
      china_def read_city_def shanghai_def)

text \<open>
  C9, as the code has it. When the \<open>svg\<close> element is mounted, the image loads and the
  canvas has a 2d context, the export triggers a download of a canvas whose width and
  height are twice those of the element's bounding rectangle with the fraction dropped,
  so exactly twice them when the doubled size is a whole number; the canvas is filled
  with white over its whole area before the scene is drawn over its whole area. (The
  sizes are those a screen can have: not negative, and doubled below \<open>2^31\<close>.)
\<close>

theorem export_twice_the_size_whole_pixels:
  "svgRef v = Some svg \<Longrightarrow> image_loads env \<Longrightarrow> has_context env \<Longrightarrow>
   0 \<le> rect_width svg \<Longrightarrow> 2 * rect_width svg < 2147483648 \<Longrightarrow>
   0 \<le> rect_height svg \<Longrightarrow> 2 * rect_height svg < 2147483648 \<Longrightarrow>
   exportToPng v env =
     Some \<lparr> canvas_width = nat \<lfloor>2 * rect_width svg\<rfloor>,
            canvas_height = nat \<lfloor>2 * rect_height svg\<rfloor>,
            canvas_ops =
              [FillRect ''white'' 0 0 (real (nat \<lfloor>2 * rect_width svg\<rfloor>))
                 (real (nat \<lfloor>2 * rect_height svg\<rfloor>)),
               DrawImage svg 0 0 (real (nat \<lfloor>2 * rect_width svg\<rfloor>))
                 (real (nat \<lfloor>2 * rect_height svg\<rfloor>))],
            file_time = now env \<rparr>
   \<and> (2 * rect_width svg \<in> \<int> \<longrightarrow> real (nat \<lfloor>2 * rect_width svg\<rfloor>) = 2 * rect_width svg)
   \<and> (2 * rect_height svg \<in> \<int> \<longrightarrow> real (nat \<lfloor>2 * rect_height svg\<rfloor>) = 2 * rect_height svg)"
proof -
  assume a: "svgRef v = Some svg" "image_loads env" "has_context env"
    and w: "0 \<le> rect_width svg" "2 * rect_width svg < 2147483648"
    and h: "0 \<le> rect_height svg" "2 * rect_height svg < 2147483648"
  have sw: "set_size_attribute 300 (rect_width svg * 2) = nat \<lfloor>2 * rect_width svg\<rfloor>"
    using to_unsigned_long_floor [of "2 * rect_width svg" 300] w by (simp add: mult.commute)
  have sh: "set_size_attribute 150 (rect_height svg * 2) = nat \<lfloor>2 * rect_height svg\<rfloor>"
    using to_unsigned_long_floor [of "2 * rect_height svg" 150] h by (simp add: mult.commute)
  have ww: "2 * rect_width svg \<in> \<int> \<longrightarrow> real (nat \<lfloor>2 * rect_width svg\<rfloor>) = 2 * rect_width svg"
    using whole_number_kept [of "2 * rect_width svg"] w by simp
  have hh: "2 * rect_height svg \<in> \<int> \<longrightarrow> real (nat \<lfloor>2 * rect_height svg\<rfloor>) = 2 * rect_height svg"
    using whole_number_kept [of "2 * rect_height svg"] h by simp
  have "exportToPng v env =
     Some \<lparr> canvas_width = nat \<lfloor>2 * rect_width svg\<rfloor>,
            canvas_height = nat \<lfloor>2 * rect_height svg\<rfloor>,
            canvas_ops =
              [FillRect ''white'' 0 0 (real (nat \<lfloor>2 * rect_width svg\<rfloor>))
                 (real (nat \<lfloor>2 * rect_height svg\<rfloor>)),
               DrawImage svg 0 0 (real (nat \<lfloor>2 * rect_width svg\<rfloor>))
                 (real (nat \<lfloor>2 * rect_height svg\<rfloor>))],
            file_time = now env \<rparr>"
    using a by (simp add: exportToPng_def Let_def sw sh)
  with ww hh show ?thesis by blast
qed

theorem export_twice_the_size_whole_pixels_witness:
  "svgRef selected_view = Some selected_svg
   \<and> image_loads working_browser \<and> has_context working_browser
   \<and> (0::real) \<le> 800 \<and> (2::real) * 800 < 2147483648
   \<and> (0::real) \<le> 450 \<and> (2::real) * 450 < 2147483648
   \<and> (2::real) * 800 \<in> \<int> \<and> (2::real) * 450 \<in> \<int>
   \<and> exportToPng selected_view working_browser =
       Some \<lparr> canvas_width = 1600, canvas_height = 900,
              canvas_ops = [FillRect ''white'' 0 0 1600 900, DrawImage selected_svg 0 0 1600 900],
              file_time = now working_browser \<rparr>
   \<and> map cp_fill (g_countries (render_group 800 450 [china] selected_props)) = [''#f97316'']
   \<and> map cl_datum (g_cities (render_group 800 450 [china] selected_props))
       = [\<lparr> c_name = Some (JStr ''Shanghai''), c_lat = Some (JNum 31.23),
             c_lng = Some (JNum 121.47), c_note = Some (JStr ''trip'') \<rparr>]
   \<and> svg_children selected_svg = Some (render_group 800 450 [china] selected_props)"
proof -
  have b: "image_loads working_browser" and c: "has_context working_browser"
    by (simp_all add: working_browser_def)
  have d: "rect_width selected_svg = 800" "rect_height selected_svg = 450"
    by (simp_all add: selected_svg_def)
  have e: "0 \<le> rect_width selected_svg" "2 * rect_width selected_svg < 2147483648"
    "0 \<le> rect_height selected_svg" "2 * rect_height selected_svg < 2147483648"
    by (simp_all add: d)
  have f: "svg_children selected_svg = Some (render_group 800 450 [china] selected_props)"
    by (simp add: selected_svg_def)
  show ?thesis
    using export_twice_the_size_whole_pixels
      [OF selected_view_svg b c e(1) e(2) e(3) e(4)] b c selected_content f
    by (simp add: selected_view_svg d)
qed

text \<open>
  C9 fails as stated: when the bounding rectangle of the \<open>svg\<close> element is 800.4 by
  450.3 pixels, the exported canvas is 1600 by 900 pixels, not 1600.8 by 900.6.
\<close>

theorem export_of_fractional_size_not_twice:
  "map_option rect_width (svgRef fractional_view) = Some 800.4
   \<and> map_option rect_height (svgRef fractional_view) = Some 450.3
   \<and> map_option canvas_width (exportToPng fractional_view working_browser) = Some 1600
   \<and> map_option canvas_height (exportToPng fractional_view working_browser) = Some 900
   \<and> (1600 :: real) \<noteq> 2 * 800.4 \<and> (900 :: real) \<noteq> 2 * 450.3"
proof -
  have v: "svgRef fractional_view =
      Some (selected_svg\<lparr> rect_width := 800.4, rect_height := 450.3 \<rparr>)"
    by (simp add: fractional_view_def run_def relayout_def handleResize_def selected_view_svg
        selected_svg_def) (simp add: selected_view_def run_def loading_view_def MapView_load_def
        MapView_render_def Let_def)
  show ?thesis
    by (simp add: v exportToPng_def Let_def working_browser_def size_fractional_width
        size_fractional_height)
qed

section \<open>Properties of the view\<close>

subsection \<open>The projection\<close>

lemma rotationIdentity_valid:
  assumes "- 180 \<le> lng" "lng \<le> 180"
  shows "rotationIdentity (lng * radians) = lng * radians"
proof -
  have "\<bar>lng\<bar> \<le> 180" using assms by simp
  then have "\<bar>lng\<bar> * pi \<le> 180 * pi"
    by (intro mult_right_mono) simp_all
  then have "\<bar>lng * radians\<bar> \<le> pi"
    by (simp add: radians_def abs_mult)
  then show ?thesis
    by (simp add: rotationIdentity_def)
qed

lemma projection_x_valid:
  assumes "- 180 \<le> lng" "lng \<le> 180"
  shows "fst (projection w h (lng, lat)) = real w / 2 + real w / (2 * pi) * (lng * radians)"
  by (simp add: projection_def Let_def rotationIdentity_valid [OF assms])

lemma projection_y:
  "snd (projection w h (lng, lat)) =
     real h / 2 + real h * 0.1 - real w / (2 * pi) * (lat * radians)"
  by (simp add: projection_def Let_def)

lemma scale_nonneg: "0 \<le> real w / (2 * pi)"
  by simp

lemma radians_nonneg: "0 \<le> radians"
  by (simp add: radians_def)

text \<open>
  C8. For a fixed viewport size, among points with a longitude between -180 and 180 a
  larger longitude never has a smaller x, whatever the latitudes; and a larger latitude
  never has a larger y, whatever the longitudes.
\<close>

theorem projection_monotone:
  "(- 180 \<le> lng1 \<and> lng1 \<le> lng2 \<and> lng2 \<le> 180 \<longrightarrow>
      fst (projection w h (lng1, lat1)) \<le> fst (projection w h (lng2, lat2)))
   \<and> (lat1 \<le> lat2 \<longrightarrow>
      snd (projection w h (lng1, lat2)) \<le> snd (projection w h (lng2, lat1)))"
proof (intro conjI impI)
  assume a: "- 180 \<le> lng1 \<and> lng1 \<le> lng2 \<and> lng2 \<le> 180"
  then have v1: "- 180 \<le> lng1" "lng1 \<le> 180" and v2: "- 180 \<le> lng2" "lng2 \<le> 180"
    by simp_all
  have "lng1 * radians \<le> lng2 * radians"
    using a radians_nonneg by (intro mult_right_mono) simp_all
  then have "real w / (2 * pi) * (lng1 * radians) \<le> real w / (2 * pi) * (lng2 * radians)"
    using scale_nonneg by (rule mult_left_mono)
  then show "fst (projection w h (lng1, lat1)) \<le> fst (projection w h (lng2, lat2))"
    by (simp only: projection_x_valid [OF v1] projection_x_valid [OF v2] add_left_mono)
next
  assume "lat1 \<le> lat2"
  then have "lat1 * radians \<le> lat2 * radians"
    using radians_nonneg by (intro mult_right_mono) simp_all
  then have "real w / (2 * pi) * (lat1 * radians) \<le> real w / (2 * pi) * (lat2 * radians)"
    using scale_nonneg by (rule mult_left_mono)
  then show "snd (projection w h (lng1, lat2)) \<le> snd (projection w h (lng2, lat1))"
    by (simp only: projection_y diff_left_mono)
qed

theorem projection_monotone_witness:
  "- 180 \<le> (0::real) \<and> (0::real) \<le> 90 \<and> (90::real) \<le> 180
   \<and> fst (projection 800 450 (0, 10)) \<le> fst (projection 800 450 (90, 40))
   \<and> (10::real) \<le> 40
   \<and> snd (projection 800 450 (0, 40)) \<le> snd (projection 800 450 (90, 10))"
  using projection_monotone [of 0 90 800 450 10 40]
  by simp

subsection \<open>The filter on the atlas\<close>

lemma drawn_render_group: "map cp_datum (g_countries (render_group w h fs p)) = fs"
  by (simp add: render_group_def render_country_def comp_def)

lemma kept_only_fresh: "kept_only (fresh_view c w h)"
  by (simp add: kept_only_def fresh_view_def loaded_features_def drawn_features_def scene_def)

lemma kept_only_load: "kept_only v \<Longrightarrow> kept_only (MapView_load fetched v)"
  by (auto simp: kept_only_def MapView_load_def loaded_features_def drawn_features_def
      scene_def Let_def list_all_iff split: option.splits)

lemma kept_only_render: "kept_only v \<Longrightarrow> kept_only (MapView_render p v)"
  by (auto simp: kept_only_def MapView_render_def loaded_features_def drawn_features_def
      scene_def drawn_render_group split: option.splits)

lemma kept_only_zoom: "kept_only v \<Longrightarrow> kept_only (on_zoom t v)"
  by (auto simp: kept_only_def on_zoom_def loaded_features_def drawn_features_def
      scene_def split: option.splits)

lemma kept_only_resize: "kept_only v \<Longrightarrow> kept_only (handleResize (relayout c w h v))"
  by (auto simp: kept_only_def handleResize_def relayout_def loaded_features_def
      drawn_features_def scene_def split: option.splits)

lemma kept_only_step: "kept_only v \<Longrightarrow> kept_only (step ev v)"
  by (cases ev) (simp_all add: kept_only_load kept_only_render kept_only_zoom kept_only_resize)

lemma kept_only_run: "kept_only v \<Longrightarrow> kept_only (run evs v)"
  unfolding run_def by (induction evs arbitrary: v) (simp_all add: kept_only_step)

lemma set_insert_by: "set (insert_by le x xs) = insert x (set xs)"
  by (induction xs) auto

lemma set_sort_by: "set (sort_by le xs) = set xs"
  unfolding sort_by_def by (induction xs) (simp_all add: set_insert_by)

lemma ce_id_to_entry: "ce_id (to_entry metaData g) = f_id g"
  by (simp add: to_entry_def Let_def)

lemma selector_entries:
  "e \<in> set (CountrySelector_load le fetched isMounted []) \<Longrightarrow>
   \<exists>geometries metaData g. fetched = Some (geometries, metaData) \<and> g \<in> set geometries
     \<and> keeps_feature g \<and> e = to_entry metaData g"
  by (auto simp: CountrySelector_load_def set_sort_by split: option.splits if_splits)

text \<open>
  C7. Whatever the atlas holds and whatever happens to a view after it is mounted, no
  feature of the loaded index and no feature with a path in the scene (the paths are what
  is drawn, hovered and clicked) has the id "010" or the name "Antarctica"; and every
  entry of the selector's country list comes from a geometry with neither, so no entry
  has the id "010".
\<close>

theorem no_antarctica_anywhere:
  "(\<forall>f \<in> set (loaded_features (run evs (fresh_view c w h))).
      f_id f \<noteq> ''010'' \<and> f_name f \<noteq> ''Antarctica'')
   \<and> (\<forall>f \<in> set (drawn_features (run evs (fresh_view c w h))).
      f_id f \<noteq> ''010'' \<and> f_name f \<noteq> ''Antarctica'')
   \<and> (\<forall>e \<in> set (CountrySelector_load le (Some (geometries, metaData)) isMounted []).
      ce_id e \<noteq> ''010''
      \<and> (\<exists>g \<in> set geometries. e = to_entry metaData g \<and> f_id g \<noteq> ''010''
            \<and> f_name g \<noteq> ''Antarctica''))"
proof (intro conjI ballI)
  have inv: "kept_only (run evs (fresh_view c w h))"
    by (rule kept_only_run) (rule kept_only_fresh)
  {
    fix f assume "f \<in> set (loaded_features (run evs (fresh_view c w h)))"
    with inv have "keeps_feature f"
      by (simp add: kept_only_def list_all_iff)
    then show "f_id f \<noteq> ''010''" and "f_name f \<noteq> ''Antarctica''"
      by (simp_all add: keeps_feature_def)
  }
  {
    fix f assume "f \<in> set (drawn_features (run evs (fresh_view c w h)))"
    with inv have "keeps_feature f"
      by (simp add: kept_only_def list_all_iff)
    then show "f_id f \<noteq> ''010''" and "f_name f \<noteq> ''Antarctica''"
      by (simp_all add: keeps_feature_def)
  }
  {
    fix e assume "e \<in> set (CountrySelector_load le (Some (geometries, metaData)) isMounted [])"
    from selector_entries [OF this]
    obtain g where g: "g \<in> set geometries" "keeps_feature g" "e = to_entry metaData g"
      by auto
    then show "ce_id e \<noteq> ''010''"
      by (simp add: ce_id_to_entry keeps_feature_def)
    from g show "\<exists>g \<in> set geometries. e = to_entry metaData g \<and> f_id g \<noteq> ''010''
            \<and> f_name g \<noteq> ''Antarctica''"
      by (auto simp: keeps_feature_def)
  }
qed

lemma loaded_example:
  "loaded_features (run [Loaded (Some ([antarctica, china], [])), Rendered initial_props]
      (fresh_view \<lparr> clientWidth = 800, clientHeight = 450 \<rparr> 800 450)) = [china]"
  by (simp add: run_def MapView_load_def MapView_render_def fresh_view_def loaded_features_def
      keeps_feature_def antarctica_def china_def Let_def)

lemma drawn_example:
  "drawn_features (run [Loaded (Some ([antarctica, china], [])), Rendered initial_props]
      (fresh_view \<lparr> clientWidth = 800, clientHeight = 450 \<rparr> 800 450)) = [china]"
  by (simp add: run_def MapView_load_def MapView_render_def fresh_view_def drawn_features_def
      scene_def drawn_render_group keeps_feature_def antarctica_def china_def Let_def)

lemma selector_example:
  "CountrySelector_load (\<lambda>a b. length a \<le> length b) (Some ([antarctica, china], [])) True [] =
     [\<lparr> ce_id = ''156'', ce_name = ''China'', ce_continent = ''Other'' \<rparr>]"
  by (simp add: CountrySelector_load_def sort_by_def to_entry_def find_meta_def js_or_def
      keeps_feature_def antarctica_def china_def Let_def)

theorem no_antarctica_anywhere_witness:
  "loaded_features (run [Loaded (Some ([antarctica, china], [])), Rendered initial_props]
      (fresh_view \<lparr> clientWidth = 800, clientHeight = 450 \<rparr> 800 450)) = [china]
   \<and> drawn_features (run [Loaded (Some ([antarctica, china], [])), Rendered initial_props]
      (fresh_view \<lparr> clientWidth = 800, clientHeight = 450 \<rparr> 800 450)) = [china]
   \<and> CountrySelector_load (\<lambda>a b. length a \<le> length b) (Some ([antarctica, china], [])) True [] =
       [\<lparr> ce_id = ''156'', ce_name = ''China'', ce_continent = ''Other'' \<rparr>]
   \<and> f_id china \<noteq> ''010'' \<and> f_name china \<noteq> ''Antarctica''
   \<and> ce_id \<lparr> ce_id = ''156'', ce_name = ''China'', ce_continent = ''Other'' \<rparr> \<noteq> ''010''"
  using no_antarctica_anywhere
    [of "[Loaded (Some ([antarctica, china], [])), Rendered initial_props]"
      "\<lparr> clientWidth = 800, clientHeight = 450 \<rparr>" 800 450
      "\<lambda>a b. length a \<le> length b" "[antarctica, china]" "[]" True]
  unfolding loaded_example drawn_example selector_example
  by simp

subsection \<open>A change of style and the scene drawn anew\<close>

lemma apply_style_frame:
  "selectedCountryIds (apply_style ch a) = selectedCountryIds a"
  "cities (apply_style ch a) = cities a"
  by (cases ch; simp)+

lemma render_keeps_data: "worldData (MapView_render p v) = worldData v"
  by (simp add: MapView_render_def split: option.splits)

lemma render_keeps_zoom:
  "kept_zoom v = Some t \<Longrightarrow> kept_zoom (MapView_render p v) = Some t"
  by (auto simp: kept_zoom_def MapView_render_def call_zoom_def split: option.splits)

lemma kept_zoom_only_gestures:
  "kept_zoom v = Some t \<Longrightarrow> (\<And>t'. ev \<noteq> Zoomed t') \<Longrightarrow> kept_zoom (step ev v) = Some t"
proof (cases ev)
  case (Loaded fetched)
  assume "kept_zoom v = Some t"
  then show ?thesis
    by (auto simp: Loaded kept_zoom_def MapView_load_def Let_def split: option.splits)
next
  case (Rendered p)
  assume "kept_zoom v = Some t"
  then show ?thesis by (simp add: Rendered render_keeps_zoom)
next
  case (Zoomed t')
  assume "\<And>t'. ev \<noteq> Zoomed t'"
  with Zoomed show ?thesis by simp
next
  case (Resized c w h)
  assume "kept_zoom v = Some t"
  then show ?thesis
    by (cases "svgRef v")
      (auto simp: Resized kept_zoom_def handleResize_def relayout_def split: option.splits)
qed

lemma restyle_keeps_session:
  assumes "App_renders a"
  shows "\<exists>v'. restyle ch (a, v) = Some (apply_style ch a, v')
     \<and> selectedCountryIds (apply_style ch a) = selectedCountryIds a
     \<and> cities (apply_style ch a) = cities a
     \<and> worldData v' = worldData v
     \<and> (\<forall>t. kept_zoom v = Some t \<longrightarrow> kept_zoom v' = Some t)"
proof -
  have "App_renders (apply_style ch a)"
    using assms by (simp add: App_renders_def apply_style_frame)
  then show ?thesis
    by (simp add: restyle_def Let_def MapView_props_def apply_style_frame render_keeps_data
        render_keeps_zoom)
qed

text \<open>
  The markers need not have coordinates for the scene to be drawn: a marker without them
  is drawn at the origin. A stored \<open>null\<close> makes the render of \<open>App\<close> fail.
\<close>

lemma restyle_after_unvalidated_marker:
  "restyle ch (initial_app\<lparr> cities := [name_only] \<rparr>, v) \<noteq> None"
  by (simp add: restyle_def Let_def MapView_props_def App_renders_def renders_marker_def
      renderable_child_def truthy_def apply_style_frame name_only_def)

lemma restyle_after_null_marker:
  "restyle ch (initial_app\<lparr> cities := [JNull] \<rparr>, v) = None"
  by (simp add: restyle_def Let_def MapView_props_def App_renders_def renders_marker_def
      apply_style_frame)

lemma project_coord_numbers:
  "project_coord w h (Some lng, Some lat) =
     (Some (fst (projection w h (lng, lat))), Some (snd (projection w h (lng, lat))))"
  by (simp add: project_coord_def projection_def Let_def)

lemma label_no_coords:
  "label_x tn (render_city 800 450 cfg (read_city name_only)) = 0
   \<and> label_y tn (render_city 800 450 cfg (read_city name_only)) = 0"
  by (simp add: label_x_def label_y_def render_city_def read_city_def name_only_def to_number_def
      project_coord_def or_zero_def)

lemma zoomed_view_eq:
  "zoomed_view =
     \<lparr> worldData = Some [china], nameMap = [(''156'', ''China'')],
       svgRef = Some \<lparr> svg_width = Some 800, svg_height = Some 450,
         svg_children =
           Some ((render_group 800 450 [china] initial_props)\<lparr> g_transform := Some zoomed_in \<rparr>),
         svg_zoom = Some zoomed_in, rect_width = 800, rect_height = 450 \<rparr>,
       containerRef = Some \<lparr> clientWidth = 800, clientHeight = 450 \<rparr> \<rparr>"
  by (simp add: zoomed_view_def run_def loading_view_def mounted_svg_def MapView_load_def
      MapView_render_def on_zoom_def keeps_feature_def antarctica_def china_def Let_def
      build_mapping_def localized_def find_meta_def js_or_def call_zoom_def)

lemma green_props_eq:
  "MapView_props (initial_app\<lparr> countryColor := ''#22c55e'' \<rparr>) = Some green_props"
  by (simp add: MapView_props_def App_renders_def initial_app_def green_props_def)

text \<open>
  C2. A change of a style value and the re-render it triggers should leave the selection
  set, the city sequence and the pan/zoom transform of the view as they are. The first
  two are left alone (\<open>restyle_keeps_session\<close>), and the transform d3 keeps on the \<open>svg\<close>
  element is changed by zoom gestures only (\<open>kept_zoom_only_gestures\<close>). The transform
  the scene is shown with is lost, though: after a zoom gesture the group carries the
  transform of the gesture; a change of the country colour makes the effect remove the
  group and append a new one, which carries no transform, while d3 still keeps the
  transform of the gesture.
\<close>

theorem restyle_drops_group_transform:
  "view_transform zoomed_view = Some zoomed_in
   \<and> restyle (SetCountryColor ''#22c55e'') (initial_app, zoomed_view)
       = Some (initial_app\<lparr> countryColor := ''#22c55e'' \<rparr>, MapView_render green_props zoomed_view)
   \<and> view_transform (MapView_render green_props zoomed_view) = None
   \<and> kept_zoom (MapView_render green_props zoomed_view) = Some zoomed_in"
  by (simp add: restyle_def green_props_eq Let_def)
     (simp add: zoomed_view_eq view_transform_def kept_zoom_def scene_def MapView_render_def
       render_group_def call_zoom_def)

end
